theory Spec2Isabelle
  imports Complex_Main
begin

section \<open>The waypoint-following node of \<^verbatim>\<open>art2d2/drawing_node.py\<close>\<close>

text \<open>
  The node turns in place towards a waypoint, drives towards it, and moves on to the next
  waypoint, with one proportional controller per phase. The model follows the methods of
  the class \<^verbatim>\<open>DrawingNode\<close> one by one: the attributes of the object are the fields of a
  record, every method takes the record and returns the updated one, and the two
  publishers are lists of the messages handed to \<^verbatim>\<open>publish\<close>, in order.
\<close>

subsection \<open>Numbers\<close>

text \<open>
  The program computes in float64. Finite values are modelled as reals, so rounding and
  overflow are abstracted away. The division of a vector by its norm can leave the finite
  values (numpy divides by zero without raising: it warns and returns \<^verbatim>\<open>nan\<close> or
  \<^verbatim>\<open>inf\<close>), so the results of that division, and everything computed from them, are
  values of \<open>fnum\<close>, with the IEEE rules for the special values.
\<close>

datatype fnum = Fin real | PInf | NInf | NaN

fun fmul :: "fnum \<Rightarrow> fnum \<Rightarrow> fnum" where
  "fmul (Fin a) (Fin b) = Fin (a * b)"
| "fmul NaN _ = NaN"
| "fmul _ NaN = NaN"
| "fmul (Fin a) PInf = (if a = 0 then NaN else if 0 < a then PInf else NInf)"
| "fmul (Fin a) NInf = (if a = 0 then NaN else if 0 < a then NInf else PInf)"
| "fmul PInf (Fin b) = (if b = 0 then NaN else if 0 < b then PInf else NInf)"
| "fmul NInf (Fin b) = (if b = 0 then NaN else if 0 < b then NInf else PInf)"
| "fmul PInf PInf = PInf"
| "fmul NInf NInf = PInf"
| "fmul PInf NInf = NInf"
| "fmul NInf PInf = NInf"

fun fadd :: "fnum \<Rightarrow> fnum \<Rightarrow> fnum" where
  "fadd (Fin a) (Fin b) = Fin (a + b)"
| "fadd NaN _ = NaN"
| "fadd _ NaN = NaN"
| "fadd PInf NInf = NaN"
| "fadd NInf PInf = NaN"
| "fadd PInf _ = PInf"
| "fadd NInf _ = NInf"
| "fadd _ PInf = PInf"
| "fadd _ NInf = NInf"

fun fabs :: "fnum \<Rightarrow> fnum" where
  "fabs (Fin a) = Fin \<bar>a\<bar>"
| "fabs PInf = PInf"
| "fabs NInf = PInf"
| "fabs NaN = NaN"

text \<open>The comparison \<^verbatim>\<open><\<close> with a finite right-hand side; it is false on \<^verbatim>\<open>nan\<close>.\<close>

fun fless :: "fnum \<Rightarrow> real \<Rightarrow> bool" where
  "fless (Fin a) b = (a < b)"
| "fless NInf b = True"
| "fless PInf b = False"
| "fless NaN b = False"

text \<open>
  \<^verbatim>\<open>a / n\<close> for a finite \<open>a\<close> and a finite divisor \<open>n\<close> that is a norm, so never
  negative and \<^verbatim>\<open>+0.0\<close> when it is zero.
\<close>

definition np_divide :: "real \<Rightarrow> real \<Rightarrow> fnum" where
  "np_divide a n =
     (if n = 0 then (if a = 0 then NaN else if 0 < a then PInf else NInf)
      else Fin (a / n))"

text \<open>\<^verbatim>\<open>np.linalg.norm\<close> of a vector of two components.\<close>

definition linalg_norm :: "real \<times> real \<Rightarrow> real" where
  "linalg_norm d = sqrt ((fst d)\<^sup>2 + (snd d)\<^sup>2)"

text \<open>\<^verbatim>\<open>np.dot\<close> of a finite vector with a vector of \<open>fnum\<close>.\<close>

definition np_dot :: "real \<times> real \<Rightarrow> fnum \<times> fnum \<Rightarrow> fnum" where
  "np_dot e d = fadd (fmul (Fin (fst e)) (fst d)) (fmul (Fin (snd e)) (snd d))"

text \<open>\<^verbatim>\<open>np.clip(x, lo, hi)\<close> is \<^verbatim>\<open>minimum(maximum(x, lo), hi)\<close>.\<close>

definition np_clip :: "real \<Rightarrow> real \<Rightarrow> real \<Rightarrow> real" where
  "np_clip x lo hi = min (max x lo) hi"

text \<open>
  \<^verbatim>\<open>np.arctan2(y, x)\<close>, the angle of the point \<open>(x, y)\<close> in \<open>(-\<pi>, \<pi>]\<close>. A zero of
  the model is \<^verbatim>\<open>+0.0\<close>: the arguments are differences \<^verbatim>\<open>target - current\<close> of a
  waypoint coordinate that is not \<^verbatim>\<open>-0.0\<close>, and such a difference is never \<^verbatim>\<open>-0.0\<close>.
\<close>

definition arctan2 :: "real \<Rightarrow> real \<Rightarrow> real" where
  "arctan2 y x =
     (if 0 < x then arctan (y / x)
      else if x < 0 then (if 0 \<le> y then arctan (y / x) + pi else arctan (y / x) - pi)
      else if 0 < y then pi / 2
      else if y < 0 then - (pi / 2)
      else 0)"

subsection \<open>Messages\<close>

text \<open>
  A \<^verbatim>\<open>Twist\<close> has a linear and an angular vector. The program writes \<^verbatim>\<open>linear.x\<close>
  and \<^verbatim>\<open>angular.z\<close> only; the other four components keep the \<^verbatim>\<open>0.0\<close> of the
  constructor and are left out of the record.
\<close>

record Twist =
  linear_x :: fnum
  angular_z :: fnum

definition Twist0 :: Twist where
  "Twist0 = \<lparr>linear_x = Fin 0, angular_z = Fin 0\<rparr>"

record PoseStamped =
  frame_id :: string
  position_x :: real
  position_y :: real
  position_z :: real
  orientation :: "real \<times> real \<times> real \<times> real"

text \<open>
  Modelled from the spec: \<^verbatim>\<open>quaternion_from_euler\<close> of \<^verbatim>\<open>art2d2.helper\<close>, which is
  not among the sources. The spec says of it that the heading is converted to a unit
  quaternion; this is the usual conversion of roll, pitch and yaw, with the components in
  the order \<open>(x, y, z, w)\<close> in which \<^verbatim>\<open>recalculate_targets\<close> reads them.
\<close>

definition quaternion_from_euler :: "real \<Rightarrow> real \<Rightarrow> real \<Rightarrow> real \<times> real \<times> real \<times> real" where
  "quaternion_from_euler roll pitch yaw =
     (sin (roll / 2) * cos (pitch / 2) * cos (yaw / 2) - cos (roll / 2) * sin (pitch / 2) * sin (yaw / 2),
      cos (roll / 2) * sin (pitch / 2) * cos (yaw / 2) + sin (roll / 2) * cos (pitch / 2) * sin (yaw / 2),
      cos (roll / 2) * cos (pitch / 2) * sin (yaw / 2) - sin (roll / 2) * sin (pitch / 2) * cos (yaw / 2),
      cos (roll / 2) * cos (pitch / 2) * cos (yaw / 2) + sin (roll / 2) * sin (pitch / 2) * sin (yaw / 2))"

subsection \<open>The node\<close>

text \<open>The attribute \<^verbatim>\<open>state\<close> holds one of the strings \<^verbatim>\<open>"turning"\<close> and \<^verbatim>\<open>"driving"\<close>.\<close>

datatype mode = Turning | Driving

datatype error = IndexError

text \<open>
  The attributes of the object. \<open>vel_published\<close> and \<open>pose_target_published\<close> are the
  messages handed to \<^verbatim>\<open>vel_publisher.publish\<close> and \<^verbatim>\<open>pose_target_publisher.publish\<close>,
  oldest first; \<open>destroyed\<close> records the call of \<^verbatim>\<open>destroy_node\<close>. The class attribute
  \<^verbatim>\<open>angle_error\<close> is never read (the methods use a local variable of that name) and is
  left out.
\<close>

record node =
  current_angle :: real
  target_angle :: real
  current_point :: "real \<times> real"
  target_point :: "real \<times> real"
  target_direction :: "fnum \<times> fnum"
  waypt_index :: nat
  state :: mode
  vel_published :: "Twist list"
  pose_target_published :: "PoseStamped list"
  destroyed :: bool

definition waypoints :: "(real \<times> real) list" where
  "waypoints = [(0, 0.3), (0.3, 0.3), (0.3, 0), (0, 0)]"

text \<open>\<^verbatim>\<open>self.waypoints[i, :]\<close>: the row \<open>i\<close>, and an \<^verbatim>\<open>IndexError\<close> beyond the last row.\<close>

definition waypoint_row :: "nat \<Rightarrow> error + (real \<times> real)" where
  "waypoint_row i = (if i < length waypoints then Inr (waypoints ! i) else Inl IndexError)"

definition vec_sub :: "real \<times> real \<Rightarrow> real \<times> real \<Rightarrow> real \<times> real" where
  "vec_sub a b = (fst a - fst b, snd a - snd b)"

text \<open>\<^verbatim>\<open>delta / np.linalg.norm(delta)\<close>, component by component.\<close>

definition unit_direction :: "real \<times> real \<Rightarrow> fnum \<times> fnum" where
  "unit_direction delta =
     (np_divide (fst delta) (linalg_norm delta), np_divide (snd delta) (linalg_norm delta))"

text \<open>The values of the class attributes, before \<^verbatim>\<open>__init__\<close> has run.\<close>

definition class_attributes :: node where
  "class_attributes =
     \<lparr>current_angle = 0, target_angle = 0, current_point = (0, 0), target_point = (0, 0),
      target_direction = (Fin 1, Fin 0), waypt_index = 0, state = Turning,
      vel_published = [], pose_target_published = [], destroyed = False\<rparr>"

text \<open>
  \<^verbatim>\<open>__init__\<close> creates the subscription, the timer and the two publishers and then
  resolves the first target, with statements of its own and not by a call of
  \<^verbatim>\<open>recalculate_targets\<close>.
\<close>

definition DrawingNode_init :: "error + node" where
  "DrawingNode_init =
     (let s = class_attributes in
      case waypoint_row (waypt_index s) of
        Inl e \<Rightarrow> Inl e
      | Inr p \<Rightarrow>
          let delta = vec_sub p (current_point s) in
          Inr (s\<lparr>target_point := p,
                 target_angle := arctan2 (snd delta) (fst delta),
                 target_direction := unit_direction delta\<rparr>))"

text \<open>
  \<^verbatim>\<open>pose_callback\<close> stores the yaw and the position of the latest pose estimate. The yaw
  is computed by \<^verbatim>\<open>euler_from_quaternion\<close> of \<^verbatim>\<open>art2d2.helper\<close>, which is not among the
  sources: the model takes its result \<^verbatim>\<open>current_yaw\<close> as the argument.
\<close>

definition pose_callback :: "real \<Rightarrow> real \<times> real \<Rightarrow> node \<Rightarrow> node" where
  "pose_callback current_yaw position s =
     s\<lparr>current_angle := current_yaw, current_point := position\<rparr>"

definition publish_vel :: "Twist \<Rightarrow> node \<Rightarrow> node" where
  "publish_vel t s = s\<lparr>vel_published := vel_published s @ [t]\<rparr>"

text \<open>\<^verbatim>\<open>rotate_to_angle\<close> returns the angle error; the model returns the node with it.\<close>

definition rotate_to_angle :: "node \<Rightarrow> node \<times> real" where
  "rotate_to_angle s =
     (let angle_error = target_angle s - current_angle s;
          k_p = 0.3;
          omega_out = k_p * angle_error;
          max_omega = 0.3;
          omega_out = np_clip omega_out (- max_omega) max_omega;
          vel_out = Twist0\<lparr>angular_z := Fin omega_out\<rparr>
      in (publish_vel vel_out s, angle_error))"

definition drive_to_point :: "node \<Rightarrow> node \<times> fnum" where
  "drive_to_point s =
     (let position_error = vec_sub (target_point s) (current_point s);
          projected_position_error = np_dot position_error (target_direction s);
          k_p = 0.2;
          vel_out = Twist0\<lparr>linear_x := fmul (Fin k_p) projected_position_error\<rparr>
      in (publish_vel vel_out s, projected_position_error))"

definition recalculate_targets :: "node \<Rightarrow> error + node" where
  "recalculate_targets s =
     (case waypoint_row (waypt_index s) of
        Inl e \<Rightarrow> Inl e
      | Inr p \<Rightarrow>
          let delta = vec_sub p (current_point s);
              angle = arctan2 (snd delta) (fst delta);
              pose_target_msg =
                \<lparr>frame_id = ''map'', position_x = fst p, position_y = snd p, position_z = 0,
                 orientation = quaternion_from_euler 0 0 angle\<rparr>
          in Inr (s\<lparr>target_point := p,
                    target_angle := angle,
                    target_direction := unit_direction delta,
                    pose_target_published := pose_target_published s @ [pose_target_msg]\<rparr>))"

definition destroy_node :: "node \<Rightarrow> node" where
  "destroy_node s = s\<lparr>destroyed := True\<rparr>"

text \<open>\<^verbatim>\<open>move\<close>, the callback of the timer.\<close>

definition move :: "node \<Rightarrow> error + node" where
  "move s =
     (case state s of
        Turning \<Rightarrow>
          (let (s1, angle_error) = rotate_to_angle s in
           if \<bar>angle_error\<bar> < 0.03 then Inr (s1\<lparr>state := Driving\<rparr>) else Inr s1)
      | Driving \<Rightarrow>
          (let (s1, projected_position_error) = drive_to_point s in
           if fless (fabs projected_position_error) 0.03 then
             if int (waypt_index s1) < int (length waypoints) - 1 then
               (case recalculate_targets (s1\<lparr>waypt_index := waypt_index s1 + 1\<rparr>) of
                  Inl e \<Rightarrow> Inl e
                | Inr s2 \<Rightarrow> Inr (s2\<lparr>state := Turning\<rparr>))
             else Inr (destroy_node (publish_vel Twist0 s1))
           else Inr s1))"

subsection \<open>The node under the executor\<close>

text \<open>
  \<^verbatim>\<open>rclpy.spin\<close> calls \<^verbatim>\<open>move\<close> at every tick of the timer and \<^verbatim>\<open>pose_callback\<close> at
  every pose estimate. \<^verbatim>\<open>destroy_node\<close> destroys the timer and the subscription of the
  node, so neither callback runs for a destroyed node. An exception of a callback ends
  the run.
\<close>

datatype event = Tick | PoseEstimate real "real \<times> real"

definition deliver :: "event \<Rightarrow> node \<Rightarrow> error + node" where
  "deliver ev s =
     (if destroyed s then Inr s
      else case ev of
             Tick \<Rightarrow> move s
           | PoseEstimate yaw position \<Rightarrow> Inr (pose_callback yaw position s))"

fun spin :: "event list \<Rightarrow> node \<Rightarrow> error + node" where
  "spin [] s = Inr s"
| "spin (ev # evs) s = (case deliver ev s of Inl e \<Rightarrow> Inl e | Inr s' \<Rightarrow> spin evs s')"

text \<open>The mission: the node is constructed and then spun.\<close>

definition mission :: "event list \<Rightarrow> error + node" where
  "mission evs = (case DrawingNode_init of Inl e \<Rightarrow> Inl e | Inr s \<Rightarrow> spin evs s)"

text \<open>
  Two expressions of \<^verbatim>\<open>drive_to_point\<close> that the statements below name often: the
  projected position error and the command that is published from it.
\<close>

abbreviation along_track :: "node \<Rightarrow> fnum" where
  "along_track s \<equiv> np_dot (vec_sub (target_point s) (current_point s)) (target_direction s)"

abbreviation driving_command :: "node \<Rightarrow> Twist" where
  "driving_command s \<equiv> \<lparr>linear_x = fmul (Fin 0.2) (along_track s), angular_z = Fin 0\<rparr>"

subsection \<open>Example nodes\<close>

text \<open>The node as \<^verbatim>\<open>__init__\<close> leaves it.\<close>

definition constructed :: node where
  "constructed =
     \<lparr>current_angle = 0, target_angle = pi / 2, current_point = (0, 0), target_point = (0, 0.3),
      target_direction = (Fin 0, Fin 1), waypt_index = 0, state = Turning,
      vel_published = [], pose_target_published = [], destroyed = False\<rparr>"

text \<open>
  The node on the first leg, from \<open>(0, 0)\<close> to the first waypoint \<open>(0, 0.3)\<close>, in the
  driving phase, with the robot at a given position and nothing published yet.
\<close>

definition first_leg :: "real \<times> real \<Rightarrow> node" where
  "first_leg position =
     \<lparr>current_angle = pi / 2, target_angle = pi / 2, current_point = position,
      target_point = (0, 0.3), target_direction = (Fin 0, Fin 1), waypt_index = 0,
      state = Driving, vel_published = [], pose_target_published = [], destroyed = False\<rparr>"

text \<open>
  The node on the last leg, from \<open>(0.3, 0)\<close> to the last waypoint \<open>(0, 0)\<close>, in the
  driving phase, with the robot at a given position and nothing published yet.
\<close>

definition last_leg :: "real \<times> real \<Rightarrow> node" where
  "last_leg position =
     \<lparr>current_angle = pi, target_angle = pi, current_point = position, target_point = (0, 0),
      target_direction = (Fin (- 1), Fin 0), waypt_index = 3, state = Driving,
      vel_published = [], pose_target_published = [], destroyed = False\<rparr>"

text \<open>
  A mission in which the robot reaches every waypoint exactly, up to the pose estimate
  that precedes the last tick: the heading is reported on target before each turning
  tick, and each leg has one driving tick at its start and one at its end.
\<close>

definition square_run :: "event list" where
  "square_run =
     [PoseEstimate (pi / 2) (0, 0), Tick, Tick, PoseEstimate (pi / 2) (0, 0.3), Tick,
      PoseEstimate 0 (0, 0.3), Tick, Tick, PoseEstimate 0 (0.3, 0.3), Tick,
      PoseEstimate (- (pi / 2)) (0.3, 0.3), Tick, Tick, PoseEstimate (- (pi / 2)) (0.3, 0), Tick,
      PoseEstimate pi (0.3, 0), Tick, Tick, PoseEstimate pi (0, 0)]"

section \<open>Basic facts\<close>

subsection \<open>The controllers, with the local variables unfolded\<close>

lemma rotate_to_angle_eq:
  "rotate_to_angle s =
     (s\<lparr>vel_published := vel_published s @
          [\<lparr>linear_x = Fin 0,
            angular_z = Fin (np_clip (0.3 * (target_angle s - current_angle s)) (- 0.3) 0.3)\<rparr>]\<rparr>,
      target_angle s - current_angle s)"
  by (simp add: rotate_to_angle_def publish_vel_def Twist0_def Let_def)

lemma drive_to_point_eq:
  "drive_to_point s =
     (s\<lparr>vel_published := vel_published s @ [driving_command s]\<rparr>, along_track s)"
  by (simp add: drive_to_point_def publish_vel_def Twist0_def Let_def)

lemma length_waypoints: "length waypoints = 4"
  by (simp add: waypoints_def)

lemma recalculate_targets_eq:
  assumes "waypt_index s < length waypoints"
  shows "recalculate_targets s =
     Inr (s\<lparr>target_point := waypoints ! waypt_index s,
            target_angle := arctan2 (snd (waypoints ! waypt_index s) - snd (current_point s))
                                    (fst (waypoints ! waypt_index s) - fst (current_point s)),
            target_direction := unit_direction (vec_sub (waypoints ! waypt_index s) (current_point s)),
            pose_target_published := pose_target_published s @
              [\<lparr>frame_id = ''map'',
                position_x = fst (waypoints ! waypt_index s),
                position_y = snd (waypoints ! waypt_index s),
                position_z = 0,
                orientation = quaternion_from_euler 0 0
                  (arctan2 (snd (waypoints ! waypt_index s) - snd (current_point s))
                           (fst (waypoints ! waypt_index s) - fst (current_point s)))\<rparr>]\<rparr>)"
  using assms by (simp add: recalculate_targets_def waypoint_row_def Let_def vec_sub_def)

subsection \<open>The branches of \<^verbatim>\<open>move\<close>\<close>

lemma move_Turning:
  "state s = Turning \<Longrightarrow>
   move s =
     Inr (if \<bar>target_angle s - current_angle s\<bar> < 0.03
          then (fst (rotate_to_angle s))\<lparr>state := Driving\<rparr>
          else fst (rotate_to_angle s))"
  by (simp add: move_def rotate_to_angle_eq)

lemma move_Driving_continue:
  assumes "state s = Driving" and "\<not> fless (fabs (along_track s)) 0.03"
  shows "move s = Inr (s\<lparr>vel_published := vel_published s @ [driving_command s]\<rparr>)"
  using assms by (simp add: move_def drive_to_point_eq)

lemma move_Driving_last:
  assumes "state s = Driving" and "fless (fabs (along_track s)) 0.03"
    and "length waypoints \<le> waypt_index s + 1"
  shows "move s =
     Inr (s\<lparr>vel_published := vel_published s @ [driving_command s, Twist0], destroyed := True\<rparr>)"
  using assms by (simp add: move_def drive_to_point_eq publish_vel_def destroy_node_def)

lemma move_Driving_advance:
  assumes "state s = Driving" and "fless (fabs (along_track s)) 0.03"
    and "waypt_index s + 1 < length waypoints"
  shows "move s =
     map_sum id (\<lambda>s'. s'\<lparr>state := Turning\<rparr>)
       (recalculate_targets
          (s\<lparr>vel_published := vel_published s @ [driving_command s],
             waypt_index := waypt_index s + 1\<rparr>))"
  using assms by (simp add: move_def drive_to_point_eq split: sum.splits)

text \<open>A driving tick raises no exception, and does one of three things.\<close>

lemma move_Driving_total:
  assumes "state s = Driving"
  shows "\<exists>s'. move s = Inr s'"
proof (cases "fless (fabs (along_track s)) 0.03")
  case False
  with assms show ?thesis by (simp add: move_Driving_continue)
next
  case True
  show ?thesis
  proof (cases "waypt_index s + 1 < length waypoints")
    case True
    with assms \<open>fless (fabs (along_track s)) 0.03\<close> show ?thesis
      by (simp add: move_Driving_advance recalculate_targets_eq)
  next
    case False
    with assms \<open>fless (fabs (along_track s)) 0.03\<close> show ?thesis
      by (simp add: move_Driving_last)
  qed
qed

lemma move_Driving_cases:
  assumes "state s = Driving" and "move s = Inr s'"
  shows "vel_published s' = vel_published s @ [driving_command s] \<and> state s' = Driving
           \<and> target_direction s' = target_direction s \<and> waypt_index s' = waypt_index s
           \<and> pose_target_published s' = pose_target_published s
           \<and> destroyed s' = destroyed s \<and> \<not> fless (fabs (along_track s)) 0.03
         \<or> vel_published s' = vel_published s @ [driving_command s] \<and> state s' = Turning
           \<and> waypt_index s' = waypt_index s + 1 \<and> waypt_index s' < length waypoints
           \<and> length (pose_target_published s') = length (pose_target_published s) + 1
           \<and> destroyed s' = destroyed s \<and> fless (fabs (along_track s)) 0.03
         \<or> vel_published s' = vel_published s @ [driving_command s, Twist0] \<and> state s' = Driving
           \<and> target_direction s' = target_direction s \<and> waypt_index s' = waypt_index s
           \<and> pose_target_published s' = pose_target_published s \<and> destroyed s'
           \<and> fless (fabs (along_track s)) 0.03 \<and> length waypoints \<le> waypt_index s + 1"
proof (cases "fless (fabs (along_track s)) 0.03")
  case False
  with assms show ?thesis by (auto simp: move_Driving_continue)
next
  case True
  show ?thesis
  proof (cases "waypt_index s + 1 < length waypoints")
    case True
    with assms \<open>fless (fabs (along_track s)) 0.03\<close> show ?thesis
      by (auto simp: move_Driving_advance recalculate_targets_eq)
  next
    case False
    with assms \<open>fless (fabs (along_track s)) 0.03\<close> show ?thesis
      by (auto simp: move_Driving_last)
  qed
qed

subsection \<open>A destroyed node\<close>

lemma spin_destroyed: "destroyed s \<Longrightarrow> spin evs s = Inr s"
  by (induction evs) (simp_all add: deliver_def)

subsection \<open>The example nodes\<close>

lemma last_leg_sel:
  "state (last_leg p) = Driving" "waypt_index (last_leg p) = 3" "\<not> destroyed (last_leg p)"
  "vel_published (last_leg p) = []"
  "along_track (last_leg p) = Fin (fst p)"
  by (simp_all add: last_leg_def np_dot_def vec_sub_def)

subsection \<open>Resolving a target\<close>

lemma linalg_norm_axis: "linalg_norm (a, 0) = \<bar>a\<bar>" "linalg_norm (0, b) = \<bar>b\<bar>"
  by (simp_all add: linalg_norm_def)

lemma unit_direction_zero: "unit_direction (0, 0) = (NaN, NaN)"
  by (simp add: unit_direction_def np_divide_def linalg_norm_axis)

lemma arctan2_zero: "arctan2 0 0 = 0"
  by (simp add: arctan2_def)

lemma quaternion_of_zero: "quaternion_from_euler 0 0 0 = (0, 0, 0, 1)"
  by (simp add: quaternion_from_euler_def)

lemma DrawingNode_init_eq: "DrawingNode_init = Inr constructed"
  by (simp add: DrawingNode_init_def class_attributes_def waypoint_row_def waypoints_def
      vec_sub_def arctan2_def unit_direction_def linalg_norm_axis np_divide_def constructed_def)

lemma mission_eq: "mission evs = spin evs constructed"
  by (simp add: mission_def DrawingNode_init_eq)

lemma constructed_sel:
  "waypt_index constructed = 0" "pose_target_published constructed = []"
  by (simp_all add: constructed_def)

lemma first_leg_advance:
  "move (first_leg (0, 0.3)) =
     Inr ((first_leg (0, 0.3))
           \<lparr>vel_published := [\<lparr>linear_x = Fin 0, angular_z = Fin 0\<rparr>],
            waypt_index := 1,
            target_point := (0.3, 0.3),
            target_angle := 0,
            target_direction := (Fin 1, Fin 0),
            pose_target_published :=
              [\<lparr>frame_id = ''map'', position_x = 0.3, position_y = 0.3, position_z = 0,
                orientation = (0, 0, 0, 1)\<rparr>],
            state := Turning\<rparr>)"
proof -
  have "state (first_leg (0, 0.3)) = Driving"
    and "along_track (first_leg (0, 0.3)) = Fin 0"
    and "waypt_index (first_leg (0, 0.3)) + 1 < length waypoints"
    by (simp_all add: first_leg_def np_dot_def vec_sub_def length_waypoints)
  moreover have "unit_direction (3 / 10, 0) = (Fin 1, Fin 0)"
    by (simp add: unit_direction_def linalg_norm_axis np_divide_def)
  moreover have "arctan2 0 (3 / 10) = 0"
    by (simp add: arctan2_def)
  ultimately show ?thesis
    by (simp add: move_Driving_advance recalculate_targets_def waypoint_row_def Let_def
        waypoints_def first_leg_def vec_sub_def quaternion_of_zero np_dot_def)
qed

lemma unit_direction_axis:
  "a \<noteq> 0 \<Longrightarrow> unit_direction (a, 0) = (Fin (sgn a), Fin 0)"
  "b \<noteq> 0 \<Longrightarrow> unit_direction (0, b) = (Fin 0, Fin (sgn b))"
  by (simp_all add: unit_direction_def linalg_norm_axis np_divide_def sgn_real_def)

lemma arctan2_axis:
  "0 < a \<Longrightarrow> arctan2 0 a = 0"
  "a < 0 \<Longrightarrow> arctan2 0 a = pi"
  "0 < b \<Longrightarrow> arctan2 b 0 = pi / 2"
  "b < 0 \<Longrightarrow> arctan2 b 0 = - (pi / 2)"
  by (simp_all add: arctan2_def)

lemma quaternion_from_yaw:
  "quaternion_from_euler 0 0 yaw = (0, 0, sin (yaw / 2), cos (yaw / 2))"
  "(sin (yaw / 2))\<^sup>2 + (cos (yaw / 2))\<^sup>2 = 1"
  by (simp_all add: quaternion_from_euler_def)

subsection \<open>The example nodes are reached by missions\<close>

lemmas run_simps =
  deliver_def pose_callback_def move_def rotate_to_angle_eq drive_to_point_eq
  recalculate_targets_def waypoint_row_def waypoints_def Let_def vec_sub_def np_dot_def
  np_clip_def unit_direction_axis arctan2_axis publish_vel_def destroy_node_def

lemma first_leg_reached:
  "mission [PoseEstimate (pi / 2) (0, 0), Tick, PoseEstimate (pi / 2) p] =
     Inr ((first_leg p)\<lparr>vel_published := [Twist0]\<rparr>)"
  by (simp add: mission_eq constructed_def first_leg_def Twist0_def run_simps)

lemma last_leg_reached:
  "mission square_run =
     Inr ((last_leg (0, 0))
           \<lparr>vel_published :=
              [Twist0, \<lparr>linear_x = Fin 0.06, angular_z = Fin 0\<rparr>, Twist0,
               Twist0, \<lparr>linear_x = Fin 0.06, angular_z = Fin 0\<rparr>, Twist0,
               Twist0, \<lparr>linear_x = Fin 0.06, angular_z = Fin 0\<rparr>, Twist0,
               Twist0, \<lparr>linear_x = Fin 0.06, angular_z = Fin 0\<rparr>],
            pose_target_published :=
              [\<lparr>frame_id = ''map'', position_x = 0.3, position_y = 0.3, position_z = 0,
                orientation = quaternion_from_euler 0 0 0\<rparr>,
               \<lparr>frame_id = ''map'', position_x = 0.3, position_y = 0, position_z = 0,
                orientation = quaternion_from_euler 0 0 (- (pi / 2))\<rparr>,
               \<lparr>frame_id = ''map'', position_x = 0, position_y = 0, position_z = 0,
                orientation = quaternion_from_euler 0 0 pi\<rparr>]\<rparr>)"
  by (simp add: mission_eq square_run_def constructed_def last_leg_def Twist0_def run_simps)

subsection \<open>The waypoint index and the announcements, step by step\<close>

lemma move_total: "\<exists>s'. move s = Inr s'"
  by (cases "state s") (simp_all add: move_Turning move_Driving_total)

lemma move_Turning_fields:
  assumes "state s = Turning" and "move s = Inr s'"
  shows "waypt_index s' = waypt_index s" "pose_target_published s' = pose_target_published s"
    "destroyed s' = destroyed s"
  using assms by (auto simp: move_Turning rotate_to_angle_eq split: if_splits)

lemma move_cursor:
  assumes "move s = Inr s'"
  shows "waypt_index s' = waypt_index s \<and> length (pose_target_published s') = length (pose_target_published s)
         \<or> waypt_index s' = Suc (waypt_index s) \<and> waypt_index s' < length waypoints
           \<and> length (pose_target_published s') = Suc (length (pose_target_published s))"
proof (cases "state s")
  case Turning
  from move_Turning_fields [OF this assms] show ?thesis by simp
next
  case Driving
  from move_Driving_cases [OF this assms] show ?thesis by auto
qed

lemma deliver_total: "\<exists>s'. deliver ev s = Inr s'"
  using move_total [of s] by (cases ev) (auto simp: deliver_def)

lemma deliver_cursor:
  assumes "deliver ev s = Inr s'"
  shows "waypt_index s' = waypt_index s \<and> length (pose_target_published s') = length (pose_target_published s)
         \<or> waypt_index s' = Suc (waypt_index s) \<and> waypt_index s' < length waypoints
           \<and> length (pose_target_published s') = Suc (length (pose_target_published s))"
proof (cases "destroyed s")
  case True
  with assms show ?thesis by (simp add: deliver_def)
next
  case False
  show ?thesis
  proof (cases ev)
    case Tick
    with False assms have "move s = Inr s'" by (simp add: deliver_def)
    then show ?thesis by (rule move_cursor)
  next
    case (PoseEstimate yaw position)
    with False assms show ?thesis by (auto simp: deliver_def pose_callback_def)
  qed
qed

lemma spin_append:
  "spin (evs @ evs') s = (case spin evs s of Inl e \<Rightarrow> Inl e | Inr s' \<Rightarrow> spin evs' s')"
  by (induction evs arbitrary: s) (simp_all split: sum.splits)

lemma spin_cursor:
  assumes "waypt_index s < length waypoints"
  shows "\<exists>s'. spin evs s = Inr s' \<and> waypt_index s \<le> waypt_index s'
           \<and> waypt_index s' < length waypoints
           \<and> length (pose_target_published s') + waypt_index s
               = length (pose_target_published s) + waypt_index s'"
  using assms
proof (induction evs arbitrary: s)
  case Nil
  then show ?case by simp
next
  case (Cons ev evs)
  obtain s1 where s1: "deliver ev s = Inr s1"
    using deliver_total by blast
  from deliver_cursor [OF s1] Cons.prems
  have step: "waypt_index s \<le> waypt_index s1" "waypt_index s1 < length waypoints"
    "length (pose_target_published s1) + waypt_index s
       = length (pose_target_published s) + waypt_index s1"
    by auto
  from Cons.IH [OF step(2)] obtain s' where
    "spin evs s1 = Inr s'" "waypt_index s1 \<le> waypt_index s'" "waypt_index s' < length waypoints"
    "length (pose_target_published s') + waypt_index s1
       = length (pose_target_published s1) + waypt_index s'"
    by blast
  with s1 step show ?case by simp
qed

subsection \<open>Clipping to a symmetric interval\<close>

lemma np_clip_abs_le: "\<bar>np_clip x (- m) m\<bar> \<le> m" if "0 \<le> m"
  using that by (auto simp: np_clip_def min_def max_def)

lemma np_clip_abs_eq: "0 < m \<Longrightarrow> \<bar>np_clip x (- m) m\<bar> = m \<longleftrightarrow> m \<le> \<bar>x\<bar>"
  by (auto simp: np_clip_def min_def max_def)

lemma np_clip_id: "\<bar>x\<bar> \<le> m \<Longrightarrow> np_clip x (- m) m = x"
  by (auto simp: np_clip_def min_def max_def)

lemma gain_below_threshold: "\<bar>e\<bar> < 0.03 \<Longrightarrow> \<bar>0.3 * e\<bar> \<le> (0.3::real)"
  by (simp add: abs_if split: if_splits)

subsection \<open>Bounds of \<open>\<pi>\<close>\<close>

lemma arctan_lower:
  fixes x :: real
  assumes "0 \<le> x"
  shows "x - x ^ 3 / 3 \<le> arctan x"
proof -
  have "(\<lambda>u. arctan u - (u - u ^ 3 / 3)) 0 \<le> (\<lambda>u. arctan u - (u - u ^ 3 / 3)) x"
  proof (rule DERIV_nonneg_imp_nondecreasing [OF assms])
    fix u :: real
    have "((\<lambda>u. arctan u - (u - u ^ 3 / 3)) has_real_derivative
        (inverse (1 + u\<^sup>2) - (1 - u\<^sup>2))) (at u)"
      by (auto intro!: derivative_eq_intros)
    moreover have "inverse (1 + u\<^sup>2) - (1 - u\<^sup>2) = u ^ 4 / (1 + u\<^sup>2)"
    proof -
      have "1 + u\<^sup>2 \<noteq> 0"
        by (metis add_pos_nonneg less_numeral_extra(1) less_irrefl zero_le_power2)
      then show ?thesis
        by (simp add: field_simps power2_eq_square power4_eq_xxxx)
    qed
    moreover have "0 \<le> u ^ 4 / (1 + u\<^sup>2)"
      by (simp add: add_nonneg_nonneg)
    ultimately show "\<exists>y. ((\<lambda>u. arctan u - (u - u ^ 3 / 3)) has_real_derivative y) (at u) \<and> 0 \<le> y"
      by auto
  qed
  then show ?thesis by simp
qed

lemma arctan_upper:
  fixes x :: real
  assumes "0 \<le> x"
  shows "arctan x \<le> x - x ^ 3 / 3 + x ^ 5 / 5"
proof -
  have "(\<lambda>u. (u - u ^ 3 / 3 + u ^ 5 / 5) - arctan u) 0 \<le> (\<lambda>u. (u - u ^ 3 / 3 + u ^ 5 / 5) - arctan u) x"
  proof (rule DERIV_nonneg_imp_nondecreasing [OF assms])
    fix u :: real
    have "((\<lambda>u. (u - u ^ 3 / 3 + u ^ 5 / 5) - arctan u) has_real_derivative
        ((1 - u\<^sup>2 + u ^ 4) - inverse (1 + u\<^sup>2))) (at u)"
      by (auto intro!: derivative_eq_intros)
    moreover have "(1 - u\<^sup>2 + u ^ 4) - inverse (1 + u\<^sup>2) = u ^ 6 / (1 + u\<^sup>2)"
    proof -
      have "1 + u\<^sup>2 \<noteq> 0"
        by (metis add_pos_nonneg less_numeral_extra(1) less_irrefl zero_le_power2)
      then show ?thesis
        by (simp add: field_simps power2_eq_square power_numeral_reduce)
    qed
    moreover have "0 \<le> u ^ 6 / (1 + u\<^sup>2)"
      by (simp add: add_nonneg_nonneg)
    ultimately show "\<exists>y. ((\<lambda>u. (u - u ^ 3 / 3 + u ^ 5 / 5) - arctan u) has_real_derivative y) (at u) \<and> 0 \<le> y"
      by auto
  qed
  then show ?thesis by simp
qed

lemma pi_bounds: "3.1405 < pi" "pi < 3.1417"
proof -
  have a: "1 / 5 - (1 / 5) ^ 3 / 3 \<le> arctan (1 / 5 :: real)"
    by (rule arctan_lower) simp
  have b: "arctan (1 / 5 :: real) \<le> 1 / 5 - (1 / 5) ^ 3 / 3 + (1 / 5) ^ 5 / 5"
    by (rule arctan_upper) simp
  have c: "1 / 239 - (1 / 239) ^ 3 / 3 \<le> arctan (1 / 239 :: real)"
    by (rule arctan_lower) simp
  have d: "arctan (1 / 239 :: real) \<le> 1 / 239 - (1 / 239) ^ 3 / 3 + (1 / 239) ^ 5 / 5"
    by (rule arctan_upper) simp
  have m: "pi = 16 * arctan (1 / 5) - 4 * arctan (1 / 239)"
    using machin by simp
  show "3.1405 < pi"
    using a d unfolding m by (simp add: power_numeral_reduce)
  show "pi < 3.1417"
    using b c unfolding m by (simp add: power_numeral_reduce)
qed

section \<open>The heading controller\<close>

text \<open>
  Claim C3. For every target heading and current heading, \<^verbatim>\<open>rotate_to_angle\<close> returns
  the plain difference \<open>target_angle - current_angle\<close> as the error, with no wrapping
  to a principal range, and publishes the angular velocity
  \<open>np_clip (0.3 * error) (-0.3) 0.3\<close>. The magnitude of that command is at most \<open>0.3\<close>,
  and it is \<open>0.3\<close> exactly when \<open>0.3 * error\<close> is at or beyond the clip, that is when
  \<open>0.3 \<le> \<bar>0.3 * error\<bar>\<close>.
\<close>

theorem heading_command_clamped:
  "snd (rotate_to_angle s) = target_angle s - current_angle s \<and>
   vel_published (fst (rotate_to_angle s)) =
     vel_published s @
       [\<lparr>linear_x = Fin 0,
         angular_z = Fin (np_clip (0.3 * (target_angle s - current_angle s)) (- 0.3) 0.3)\<rparr>] \<and>
   \<bar>np_clip (0.3 * (target_angle s - current_angle s)) (- 0.3) 0.3\<bar> \<le> 0.3 \<and>
   (\<bar>np_clip (0.3 * (target_angle s - current_angle s)) (- 0.3) 0.3\<bar> = 0.3
      \<longleftrightarrow> 0.3 \<le> \<bar>0.3 * (target_angle s - current_angle s)\<bar>)"
proof -
  have "\<bar>np_clip x (- 0.3) 0.3\<bar> \<le> 0.3" for x
    using np_clip_abs_le [of "0.3" x] by simp
  moreover have "\<bar>np_clip x (- 0.3) 0.3\<bar> = 0.3 \<longleftrightarrow> 0.3 \<le> \<bar>x\<bar>" for x
    using np_clip_abs_eq [of "0.3" x] by simp
  ultimately show ?thesis
    by (simp add: rotate_to_angle_eq)
qed

section \<open>The turning phase\<close>

text \<open>
  Claim C6. The test that ends the turning phase is strict. In a tick of the turning
  phase the node leaves the phase if and only if the absolute heading error of that tick
  is below \<open>0.03\<close>, and stays in it if and only if the error is \<open>0.03\<close> or more; a
  pose estimate does not change the phase. The witness takes the errors \<open>0.03\<close>
  (the node keeps turning) and \<open>0.0299\<close> (the node starts driving).
\<close>

theorem turning_threshold_strict:
  assumes "state s = Turning"
  shows "\<exists>s'. move s = Inr s' \<and>
           (state s' = Driving \<longleftrightarrow> \<bar>target_angle s - current_angle s\<bar> < 0.03) \<and>
           (state s' = Turning \<longleftrightarrow> 0.03 \<le> \<bar>target_angle s - current_angle s\<bar>) \<and>
           state (pose_callback yaw position s) = Turning"
  using assms by (simp add: move_Turning rotate_to_angle_eq not_less pose_callback_def)

theorem turning_threshold_strict_witness:
  "state (class_attributes\<lparr>target_angle := 0.03\<rparr>) = Turning \<and>
   (\<exists>s'. move (class_attributes\<lparr>target_angle := 0.03\<rparr>) = Inr s' \<and> state s' = Turning) \<and>
   (\<exists>s'. move (class_attributes\<lparr>target_angle := 0.0299\<rparr>) = Inr s' \<and> state s' = Driving)"
proof -
  have t: "state (class_attributes\<lparr>target_angle := a\<rparr>) = Turning" for a
    by (simp add: class_attributes_def)
  show ?thesis
    using turning_threshold_strict [OF t [of "0.03"], where yaw = 0 and position = "(0, 0)"]
      turning_threshold_strict [OF t [of "0.0299"], where yaw = 0 and position = "(0, 0)"]
    by (auto simp: class_attributes_def)
qed

text \<open>
  Claim C9. In the tick in which the turning phase converges (absolute heading error
  below \<open>0.03\<close>), \<^verbatim>\<open>rotate_to_angle\<close> has already published its command when the
  phase changes: the tick appends the command with angular velocity
  \<open>np_clip (0.3 * error) (-0.3) 0.3\<close> and then switches to driving. So small an error
  is not clipped, so the command is \<open>0.3 * error\<close>, which is not zero unless the error
  is. The witness has the error \<open>0.02\<close> and the command \<open>0.006\<close>.
\<close>

theorem turning_converging_tick_publishes:
  assumes "state s = Turning" and "\<bar>target_angle s - current_angle s\<bar> < 0.03"
  shows "move s =
           Inr (s\<lparr>vel_published := vel_published s @
                     [\<lparr>linear_x = Fin 0,
                       angular_z = Fin (np_clip (0.3 * (target_angle s - current_angle s)) (- 0.3) 0.3)\<rparr>],
                  state := Driving\<rparr>) \<and>
         np_clip (0.3 * (target_angle s - current_angle s)) (- 0.3) 0.3 =
           0.3 * (target_angle s - current_angle s)"
proof -
  have "\<bar>0.3 * (target_angle s - current_angle s)\<bar> \<le> 0.3"
    using assms(2) by (rule gain_below_threshold)
  then have "np_clip (0.3 * (target_angle s - current_angle s)) (- 0.3) 0.3 =
      0.3 * (target_angle s - current_angle s)"
    by (rule np_clip_id)
  with assms show ?thesis
    by (simp add: move_Turning rotate_to_angle_eq)
qed

theorem turning_converging_tick_publishes_witness:
  "move (class_attributes\<lparr>target_angle := 0.02\<rparr>) =
     Inr (class_attributes
            \<lparr>target_angle := 0.02,
             vel_published := [\<lparr>linear_x = Fin 0, angular_z = Fin 0.006\<rparr>],
             state := Driving\<rparr>)"
proof -
  have "state (class_attributes\<lparr>target_angle := 0.02\<rparr>) = Turning"
    by (simp add: class_attributes_def)
  moreover have "\<bar>target_angle (class_attributes\<lparr>target_angle := 0.02\<rparr>)
      - current_angle (class_attributes\<lparr>target_angle := 0.02\<rparr>)\<bar> < 0.03"
    by (simp add: class_attributes_def)
  ultimately show ?thesis
    using turning_converging_tick_publishes [of "class_attributes\<lparr>target_angle := 0.02\<rparr>"]
    by (simp add: class_attributes_def)
qed

section \<open>The driving phase\<close>

text \<open>
  Claim C5. In a tick of the driving phase, whatever the current position, the command
  that \<^verbatim>\<open>drive_to_point\<close> publishes has the linear velocity \<open>0.2\<close> times the dot
  product of \<open>target_point - current_point\<close> with the stored \<open>target_direction\<close>, and
  nothing clips it: for a finite direction \<open>(dx, dy)\<close> it is
  \<open>0.2 * ((tx - cx) * dx + (ty - cy) * dy)\<close>. The direction is the one stored
  when the target of the leg was resolved: neither a pose estimate nor a tick that stays
  in the driving phase changes it. The witness is the last leg with the robot \<open>100\<close>
  metres from the waypoint: the command is \<open>20\<close> metres per second.
\<close>

theorem driving_velocity_projection:
  assumes "state s = Driving"
  shows "\<exists>s'. move s = Inr s' \<and>
           length (vel_published s) < length (vel_published s') \<and>
           take (length (vel_published s)) (vel_published s') = vel_published s \<and>
           vel_published s' ! length (vel_published s) =
             \<lparr>linear_x = fmul (Fin 0.2) (along_track s), angular_z = Fin 0\<rparr> \<and>
           (state s' = Driving \<longrightarrow> target_direction s' = target_direction s) \<and>
           target_direction (pose_callback yaw position s) = target_direction s \<and>
           (\<forall>dx dy. target_direction s = (Fin dx, Fin dy) \<longrightarrow>
              fmul (Fin 0.2) (along_track s) =
                Fin (0.2 * ((fst (target_point s) - fst (current_point s)) * dx
                          + (snd (target_point s) - snd (current_point s)) * dy)))"
proof -
  obtain s' where s': "move s = Inr s'"
    using move_Driving_total [OF assms] by blast
  have fin: "\<forall>dx dy. target_direction s = (Fin dx, Fin dy) \<longrightarrow>
              fmul (Fin 0.2) (along_track s) =
                Fin (0.2 * ((fst (target_point s) - fst (current_point s)) * dx
                          + (snd (target_point s) - snd (current_point s)) * dy))"
    by (simp add: np_dot_def vec_sub_def)
  have "target_direction (pose_callback yaw position s) = target_direction s"
    by (simp add: pose_callback_def)
  with move_Driving_cases [OF assms s'] s' fin show ?thesis
    by (auto simp: nth_append)
qed

theorem driving_velocity_projection_witness:
  "state (last_leg (100, 0)) = Driving \<and>
   target_direction (last_leg (100, 0)) = (Fin (- 1), Fin 0) \<and>
   (\<exists>s'. move (last_leg (100, 0)) = Inr s' \<and>
      vel_published s' ! 0 = \<lparr>linear_x = Fin 20, angular_z = Fin 0\<rparr> \<and>
      state s' = Driving \<and> target_direction s' = (Fin (- 1), Fin 0))"
proof -
  have "move (last_leg (100, 0)) =
      Inr ((last_leg (100, 0))\<lparr>vel_published := [\<lparr>linear_x = Fin 20, angular_z = Fin 0\<rparr>]\<rparr>)"
    by (simp add: move_Driving_continue last_leg_sel)
  with driving_velocity_projection [of "last_leg (100, 0)" 0 "(0, 0)"] show ?thesis
    by (auto simp: last_leg_sel) (simp_all add: last_leg_def)
qed

text \<open>
  Claim C10. In the tick in which the driving phase of the last waypoint converges,
  \<^verbatim>\<open>move\<close> publishes two velocity commands, in this order: the proportional command
  of \<^verbatim>\<open>drive_to_point\<close>, with linear velocity \<open>0.2\<close> times the projected error, and then
  the zero command; it then destroys the node.
\<close>

theorem last_driving_tick_two_commands:
  assumes "state s = Driving" and "waypt_index s + 1 = length waypoints"
    and "fless (fabs (along_track s)) 0.03"
  shows "move s =
     Inr (s\<lparr>vel_published := vel_published s @
               [\<lparr>linear_x = fmul (Fin 0.2) (along_track s), angular_z = Fin 0\<rparr>,
                \<lparr>linear_x = Fin 0, angular_z = Fin 0\<rparr>],
            destroyed := True\<rparr>)"
  using assms by (simp add: move_Driving_last Twist0_def)

theorem last_driving_tick_two_commands_witness:
  "move (last_leg (0.01, 0)) =
     Inr ((last_leg (0.01, 0))
           \<lparr>vel_published := [\<lparr>linear_x = Fin 0.002, angular_z = Fin 0\<rparr>,
                              \<lparr>linear_x = Fin 0, angular_z = Fin 0\<rparr>],
            destroyed := True\<rparr>)"
  using last_driving_tick_two_commands [of "last_leg (0.01, 0)"]
  by (simp add: last_leg_sel length_waypoints)

section \<open>The end of the mission\<close>

text \<open>
  Claim C2, as the program has it. The attribute \<^verbatim>\<open>state\<close> has the two values
  \<^verbatim>\<open>"turning"\<close> and \<^verbatim>\<open>"driving"\<close> and no third one, and \<^verbatim>\<open>move\<close> has no test for
  a finished mission. With the robot exactly on the last waypoint, the tick that
  completes the mission publishes two zero commands (the proportional command is zero,
  and the zero command follows it) and leaves \<^verbatim>\<open>state\<close> at \<^verbatim>\<open>"driving"\<close>; and
  \<^verbatim>\<open>move\<close>, called once more on that node, runs the driving branch again and hands
  two more commands to the publisher.
\<close>

theorem completion_counterexample:
  "move (last_leg (0, 0)) =
     Inr ((last_leg (0, 0))\<lparr>vel_published := [Twist0, Twist0], destroyed := True\<rparr>) \<and>
   state ((last_leg (0, 0))\<lparr>vel_published := [Twist0, Twist0], destroyed := True\<rparr>) = Driving \<and>
   move ((last_leg (0, 0))\<lparr>vel_published := [Twist0, Twist0], destroyed := True\<rparr>) =
     Inr ((last_leg (0, 0))\<lparr>vel_published := [Twist0, Twist0, Twist0, Twist0], destroyed := True\<rparr>)"
  by (simp add: move_Driving_last last_leg_def length_waypoints np_dot_def vec_sub_def Twist0_def)

text \<open>
  Claim C2, amended. In the tick in which the driving phase of the last waypoint
  converges, the node publishes the proportional command and then one zero command, and
  calls \<^verbatim>\<open>destroy_node\<close>; \<^verbatim>\<open>state\<close> stays \<^verbatim>\<open>"driving"\<close> and the waypoint index stays
  where it is. What ends the mission is the destruction of the node: the executor calls
  neither callback of a destroyed node, so whatever ticks and pose estimates follow,
  nothing more is published and the node does not change.
\<close>

theorem completion_tick:
  assumes "state s = Driving" and "waypt_index s + 1 = length waypoints"
    and "fless (fabs (along_track s)) 0.03" and "\<not> destroyed s"
  shows "\<exists>s'. deliver Tick s = Inr s' \<and>
           vel_published s' = vel_published s @
               [\<lparr>linear_x = fmul (Fin 0.2) (along_track s), angular_z = Fin 0\<rparr>,
                \<lparr>linear_x = Fin 0, angular_z = Fin 0\<rparr>] \<and>
           destroyed s' \<and> state s' = Driving \<and> waypt_index s' = waypt_index s \<and>
           (\<forall>evs. spin evs s' = Inr s')"
  using assms by (simp add: deliver_def move_Driving_last Twist0_def spin_destroyed)

theorem completion_tick_witness:
  "\<exists>s'. deliver Tick (last_leg (0.01, 0)) = Inr s' \<and>
      vel_published s' = [\<lparr>linear_x = Fin 0.002, angular_z = Fin 0\<rparr>,
                          \<lparr>linear_x = Fin 0, angular_z = Fin 0\<rparr>] \<and>
      destroyed s' \<and> state s' = Driving \<and> spin [Tick, PoseEstimate 0 (1, 1), Tick] s' = Inr s'"
  using completion_tick [of "last_leg (0.01, 0)"]
  by (fastforce simp: last_leg_sel length_waypoints simp del: spin.simps)

text \<open>
  A whole mission: from construction, the run through the four waypoints and one more
  tick end with a destroyed node at the waypoint index \<open>3\<close>, with three target poses
  announced and two zero commands published last; whatever events follow change nothing.
\<close>

lemma square_run_completes:
  "\<exists>s. mission (square_run @ [Tick]) = Inr s \<and> destroyed s \<and> state s = Driving \<and>
      waypt_index s = 3 \<and> length (pose_target_published s) = 3 \<and>
      drop 11 (vel_published s) = [Twist0, Twist0] \<and>
      mission (square_run @ [Tick] @ evs) = Inr s"
proof -
  let ?s = "(last_leg (0, 0))
           \<lparr>vel_published :=
              [Twist0, \<lparr>linear_x = Fin 0.06, angular_z = Fin 0\<rparr>, Twist0,
               Twist0, \<lparr>linear_x = Fin 0.06, angular_z = Fin 0\<rparr>, Twist0,
               Twist0, \<lparr>linear_x = Fin 0.06, angular_z = Fin 0\<rparr>, Twist0,
               Twist0, \<lparr>linear_x = Fin 0.06, angular_z = Fin 0\<rparr>],
            pose_target_published :=
              [\<lparr>frame_id = ''map'', position_x = 0.3, position_y = 0.3, position_z = 0,
                orientation = quaternion_from_euler 0 0 0\<rparr>,
               \<lparr>frame_id = ''map'', position_x = 0.3, position_y = 0, position_z = 0,
                orientation = quaternion_from_euler 0 0 (- (pi / 2))\<rparr>,
               \<lparr>frame_id = ''map'', position_x = 0, position_y = 0, position_z = 0,
                orientation = quaternion_from_euler 0 0 pi\<rparr>]\<rparr>"
  have run: "spin square_run constructed = Inr ?s"
    using last_leg_reached by (simp add: mission_eq)
  have "state ?s = Driving" and "fless (fabs (along_track ?s)) 0.03"
    and "length waypoints \<le> waypt_index ?s + 1" and "\<not> destroyed ?s"
    by (simp_all add: last_leg_def np_dot_def vec_sub_def length_waypoints)
  then have tick: "deliver Tick ?s =
      Inr (?s\<lparr>vel_published := vel_published ?s @ [driving_command ?s, Twist0], destroyed := True\<rparr>)"
    by (simp add: deliver_def move_Driving_last)
  have "spin (square_run @ [Tick] @ evs) constructed =
      Inr (?s\<lparr>vel_published := vel_published ?s @ [driving_command ?s, Twist0], destroyed := True\<rparr>)"
    for evs
    unfolding spin_append run sum.case spin.simps tick
    by (rule spin_destroyed) simp
  from this [of evs] this [of "[]"] show ?thesis
    by (simp add: mission_eq last_leg_def np_dot_def vec_sub_def Twist0_def)
qed

section \<open>Resolving the target of a leg\<close>

text \<open>
  Claim C1, as the program has it. \<^verbatim>\<open>recalculate_targets\<close> has no test of the norm
  and nothing that it could signal. On the first leg the robot can stand at \<open>(0.3, 0.3)\<close>
  with no along-track error left (the error across the track is not measured); the tick
  then advances to the waypoint \<open>(0.3, 0.3)\<close>, the difference to the robot's position
  is \<open>(0, 0)\<close>, its norm is \<open>0\<close>, and the division is performed: both components of
  the new target direction are \<^verbatim>\<open>nan\<close>.
\<close>

theorem degenerate_target_counterexample:
  "move (first_leg (0.3, 0.3)) =
     Inr ((first_leg (0.3, 0.3))
           \<lparr>vel_published := [\<lparr>linear_x = Fin 0, angular_z = Fin 0\<rparr>],
            waypt_index := 1,
            target_point := (0.3, 0.3),
            target_angle := 0,
            target_direction := (NaN, NaN),
            pose_target_published :=
              [\<lparr>frame_id = ''map'', position_x = 0.3, position_y = 0.3, position_z = 0,
                orientation = (0, 0, 0, 1)\<rparr>],
            state := Turning\<rparr>)"
proof -
  have "state (first_leg (0.3, 0.3)) = Driving"
    and "along_track (first_leg (0.3, 0.3)) = Fin 0"
    and "waypt_index (first_leg (0.3, 0.3)) + 1 < length waypoints"
    by (simp_all add: first_leg_def np_dot_def vec_sub_def length_waypoints)
  then show ?thesis
    by (simp add: move_Driving_advance recalculate_targets_def waypoint_row_def Let_def
        waypoints_def first_leg_def vec_sub_def unit_direction_zero arctan2_zero
        quaternion_of_zero np_dot_def)
qed

text \<open>
  Claim C1, amended. When the waypoint under the index is exactly the robot's position,
  \<^verbatim>\<open>recalculate_targets\<close> signals nothing and returns normally: the norm of the
  difference is \<open>0\<close>, the division by it makes both components of the target direction
  \<^verbatim>\<open>nan\<close>, the target angle is \<open>arctan2 0 0 = 0\<close>, and the target is announced
  with the orientation of that angle.
\<close>

theorem degenerate_target_divides:
  assumes "waypoint_row (waypt_index s) = Inr (current_point s)"
  shows "linalg_norm (vec_sub (current_point s) (current_point s)) = 0 \<and>
         recalculate_targets s =
           Inr (s\<lparr>target_point := current_point s,
                  target_angle := 0,
                  target_direction := (NaN, NaN),
                  pose_target_published := pose_target_published s @
                    [\<lparr>frame_id = ''map'',
                      position_x = fst (current_point s),
                      position_y = snd (current_point s),
                      position_z = 0,
                      orientation = (0, 0, 0, 1)\<rparr>]\<rparr>)"
proof -
  have "vec_sub (current_point s) (current_point s) = (0, 0)"
    by (simp add: vec_sub_def)
  with assms show ?thesis
    by (simp add: recalculate_targets_def Let_def unit_direction_zero arctan2_zero
        quaternion_of_zero linalg_norm_axis)
qed

theorem degenerate_target_divides_witness:
  "recalculate_targets (class_attributes\<lparr>current_point := (0.3, 0.3), waypt_index := 1\<rparr>) =
     Inr (class_attributes
           \<lparr>current_point := (0.3, 0.3), waypt_index := 1, target_point := (0.3, 0.3),
            target_angle := 0, target_direction := (NaN, NaN),
            pose_target_published :=
              [\<lparr>frame_id = ''map'', position_x = 0.3, position_y = 0.3, position_z = 0,
                orientation = (0, 0, 0, 1)\<rparr>]\<rparr>)"
proof -
  have "waypoint_row (waypt_index (class_attributes\<lparr>current_point := (0.3, 0.3), waypt_index := 1\<rparr>))
      = Inr (current_point (class_attributes\<lparr>current_point := (0.3, 0.3), waypt_index := 1\<rparr>))"
    by (simp add: waypoint_row_def waypoints_def class_attributes_def)
  from degenerate_target_divides [OF this] show ?thesis
    by (simp add: class_attributes_def)
qed

text \<open>
  What follows from a \<^verbatim>\<open>nan\<close> direction: once the node is driving, every tick publishes
  a \<^verbatim>\<open>nan\<close> linear velocity and the phase never converges.
\<close>

lemma nan_direction_stuck:
  assumes "state s = Driving" and "target_direction s = (NaN, NaN)"
  shows "move s = Inr (s\<lparr>vel_published := vel_published s @ [\<lparr>linear_x = NaN, angular_z = Fin 0\<rparr>]\<rparr>)"
  using assms by (simp add: move_Driving_continue np_dot_def)

section \<open>The first target\<close>

text \<open>
  Claim C4, as the program has it. The first row of \<^verbatim>\<open>waypoints\<close> is \<open>(0, 0.3)\<close>, so
  the target that \<^verbatim>\<open>__init__\<close> resolves is not the point \<open>(0.3, 0.3)\<close>, its heading
  \<open>\<pi> / 2\<close> is not within \<open>0.1\<close> of \<open>0.785\<close>, and its direction is \<open>(0, 1)\<close>.
\<close>

theorem first_target_counterexample:
  "DrawingNode_init = Inr constructed \<and>
   target_point constructed \<noteq> (0.3, 0.3) \<and>
   \<not> \<bar>target_angle constructed - 0.785\<bar> < 0.1 \<and>
   target_direction constructed = (Fin 0, Fin 1)"
proof -
  have "\<not> \<bar>pi / 2 - 0.785\<bar> < (0.1::real)"
    using pi_ge_two by (simp add: abs_if)
  then show ?thesis
    by (simp add: DrawingNode_init_eq) (simp add: constructed_def)
qed

text \<open>
  Claim C4, amended. With the robot at \<open>(0, 0)\<close> and heading \<open>0\<close> at construction, the
  first target is the point \<open>(0, 0.3)\<close> with heading \<open>\<pi> / 2\<close>, which is \<open>1.571\<close>
  to three decimals, and direction \<open>(0, 1)\<close>; the first step of the heading
  controller returns the angle error \<open>\<pi> / 2\<close> and publishes the saturated angular
  velocity \<open>0.3\<close>.
\<close>

theorem first_target:
  "DrawingNode_init = Inr constructed \<and>
   current_point constructed = (0, 0) \<and> current_angle constructed = 0 \<and>
   target_point constructed = (0, 0.3) \<and>
   target_angle constructed = pi / 2 \<and>
   \<bar>target_angle constructed - 1.571\<bar> < 0.001 \<and>
   target_direction constructed = (Fin 0, Fin 1) \<and>
   rotate_to_angle constructed =
     (constructed\<lparr>vel_published := [\<lparr>linear_x = Fin 0, angular_z = Fin 0.3\<rparr>]\<rparr>, pi / 2)"
proof -
  have near: "\<bar>pi / 2 - 1.571\<bar> < (0.001::real)"
    using pi_bounds by (simp add: abs_if)
  have "np_clip (0.3 * (pi / 2)) (- 0.3) 0.3 = 0.3"
    using pi_ge_two by (simp add: np_clip_def min_def max_def)
  then have "rotate_to_angle constructed =
     (constructed\<lparr>vel_published := [\<lparr>linear_x = Fin 0, angular_z = Fin 0.3\<rparr>]\<rparr>, pi / 2)"
    by (simp add: rotate_to_angle_eq constructed_def)
  with near show ?thesis
    by (simp add: DrawingNode_init_eq) (simp add: constructed_def)
qed

section \<open>The waypoint index\<close>

text \<open>
  Claim C7. A call of \<^verbatim>\<open>move\<close> on any node leaves the waypoint index as it is or adds
  exactly one to it, and an index below \<open>length waypoints\<close> stays below it. Over the
  mission, that is after construction and any sequence of ticks and pose estimates, no
  exception is raised, the index is below \<open>length waypoints\<close>, one more event leaves it
  or adds exactly one, and any continuation of the mission ends with an index that is
  not smaller.
\<close>

theorem cursor_monotone_in_range:
  "(\<exists>t'. move t = Inr t' \<and>
      (waypt_index t' = waypt_index t \<or> waypt_index t' = waypt_index t + 1) \<and>
      (waypt_index t < length waypoints \<longrightarrow> waypt_index t' < length waypoints)) \<and>
   (\<exists>s. mission evs = Inr s \<and> waypt_index s < length waypoints \<and>
     (\<exists>s'. mission (evs @ [ev]) = Inr s' \<and>
        (waypt_index s' = waypt_index s \<or> waypt_index s' = waypt_index s + 1) \<and>
        waypt_index s' < length waypoints) \<and>
     (\<exists>s''. mission (evs @ evs') = Inr s'' \<and> waypt_index s \<le> waypt_index s''))"
proof -
  obtain t' where t': "move t = Inr t'"
    using move_total by blast
  from move_cursor [OF t']
  have "(waypt_index t' = waypt_index t \<or> waypt_index t' = waypt_index t + 1) \<and>
      (waypt_index t < length waypoints \<longrightarrow> waypt_index t' < length waypoints)"
    by auto
  with t' have first: "\<exists>t'. move t = Inr t' \<and>
      (waypt_index t' = waypt_index t \<or> waypt_index t' = waypt_index t + 1) \<and>
      (waypt_index t < length waypoints \<longrightarrow> waypt_index t' < length waypoints)"
    by blast
  have "waypt_index constructed < length waypoints"
    by (simp add: constructed_sel length_waypoints)
  from spin_cursor [OF this, of evs] obtain s where
    s: "spin evs constructed = Inr s" "waypt_index s < length waypoints"
    by blast
  obtain s' where s': "deliver ev s = Inr s'"
    using deliver_total by blast
  from deliver_cursor [OF s'] s(2)
  have "(waypt_index s' = waypt_index s \<or> waypt_index s' = waypt_index s + 1) \<and>
        waypt_index s' < length waypoints"
    by auto
  moreover from spin_cursor [OF s(2), of evs'] obtain s'' where
    "spin evs' s = Inr s''" "waypt_index s \<le> waypt_index s''"
    by blast
  ultimately have "\<exists>s. mission evs = Inr s \<and> waypt_index s < length waypoints \<and>
     (\<exists>s'. mission (evs @ [ev]) = Inr s' \<and>
        (waypt_index s' = waypt_index s \<or> waypt_index s' = waypt_index s + 1) \<and>
        waypt_index s' < length waypoints) \<and>
     (\<exists>s''. mission (evs @ evs') = Inr s'' \<and> waypt_index s \<le> waypt_index s'')"
    using s s' by (simp add: mission_eq spin_append)
  with first show ?thesis ..
qed

theorem cursor_monotone_in_range_witness:
  "waypt_index (first_leg (0, 0.3)) < length waypoints \<and>
   (\<exists>t'. move (first_leg (0, 0.3)) = Inr t' \<and> waypt_index t' = 1 \<and>
      waypt_index t' < length waypoints)"
  using cursor_monotone_in_range [of "first_leg (0, 0.3)" "[]" Tick "[]"]
  by (auto simp: first_leg_advance length_waypoints)

section \<open>The announcements of the target pose\<close>

text \<open>
  Claim C8, evaluated on the program. \<^verbatim>\<open>__init__\<close> resolves the first target and
  publishes no target pose; \<^verbatim>\<open>recalculate_targets\<close> publishes one at every advance.
  So after construction and any sequence of ticks and pose estimates, the number of
  announcements is the waypoint index, the number of advances, and not one more: the
  initial waypoint is never announced.
\<close>

theorem announcements_count_advances:
  "DrawingNode_init = Inr constructed \<and> pose_target_published constructed = [] \<and>
   (\<exists>s. mission evs = Inr s \<and> length (pose_target_published s) = waypt_index s)"
proof -
  have "waypt_index constructed < length waypoints"
    by (simp add: constructed_sel length_waypoints)
  from spin_cursor [OF this, of evs] show ?thesis
    by (auto simp: mission_eq constructed_sel DrawingNode_init_eq)
qed

end
